theory Spec2Isabelle
  imports Complex_Main "HOL-Library.Multiset" "HOL-Library.Sublist"
begin

section \<open>Python primitives used by the statistics code\<close>

text \<open>
  The exceptions that the modelled code can raise. A function that may raise returns
  \<open>error + 'a\<close>, with \<open>Inl\<close> for the exception.
\<close>

datatype error =
    ValueError
  | StopIteration
  | ZeroDivisionError
  | AttributeError
  | TypeError
  | IndexError

text \<open>
  \<open>next((x for x in xs if P x), None)\<close>: the first element satisfying \<open>P\<close>, or
  \<open>None\<close>.
\<close>

fun py_next_default :: "('a \<Rightarrow> bool) \<Rightarrow> 'a list \<Rightarrow> 'a option" where
  "py_next_default P [] = None"
| "py_next_default P (x # xs) = (if P x then Some x else py_next_default P xs)"

text \<open>
  \<open>next(i for i, m in enumerate(xs, start=n) if P m)\<close>, without a default: the
  position of the first element satisfying \<open>P\<close>, counted from \<open>n\<close>; an exhausted
  generator raises \<open>StopIteration\<close>.
\<close>

fun py_next_index :: "('a \<Rightarrow> bool) \<Rightarrow> nat \<Rightarrow> 'a list \<Rightarrow> error + nat" where
  "py_next_index P n [] = Inl StopIteration"
| "py_next_index P n (x # xs) = (if P x then Inr n else py_next_index P (Suc n) xs)"

text \<open>
  \<open>sorted(xs, key=key, reverse=True)\<close>. CPython reverses the list, sorts it with a
  stable ascending sort and reverses the result, so entries with equal keys keep their
  input order. \<open>sort_key\<close> is the stable insertion sort of the library; a stable sort
  has only one possible output, so the algorithm behind \<open>sorted\<close> does not matter.
\<close>

definition py_sorted_reverse :: "('a \<Rightarrow> 'k::linorder) \<Rightarrow> 'a list \<Rightarrow> 'a list" where
  "py_sorted_reverse key xs = rev (sort_key key (rev xs))"

text \<open>
  \<open>max(xs, key=key)\<close> keeps the first of several maximal elements: the running best
  is replaced only by a strictly larger key. The empty list (where Python raises, or
  returns the \<open>default\<close>) is \<open>None\<close>; every caller handles it.
\<close>

fun py_max_key :: "('a \<Rightarrow> 'k::linorder) \<Rightarrow> 'a list \<Rightarrow> 'a option" where
  "py_max_key key [] = None"
| "py_max_key key (x # xs) = Some (foldl (\<lambda>b y. if key b < key y then y else b) x xs)"

text \<open>
  \<open>a / b\<close> on two Python ints. Python returns the float nearest to the exact
  quotient; the model keeps the exact quotient as a rational number. Division by zero
  raises.
\<close>

definition py_truediv :: "int \<Rightarrow> int \<Rightarrow> error + rat" where
  "py_truediv a b = (if b = 0 then Inl ZeroDivisionError else Inr (of_int a / of_int b))"

text \<open>\<open>xs[i]\<close>: a negative index counts from the end, an index out of range raises.\<close>

definition py_index :: "'a list \<Rightarrow> int \<Rightarrow> error + 'a" where
  "py_index xs i =
     (if 0 \<le> i \<and> i < int (length xs) then Inr (xs ! nat i)
      else if i < 0 \<and> - int (length xs) \<le> i then Inr (xs ! nat (int (length xs) + i))
      else Inl IndexError)"

text \<open>\<open>d.get(k, default)\<close> where \<open>k\<close> may be \<open>None\<close>, which is never a key.\<close>

definition dict_get :: "('k \<rightharpoonup> 'v) \<Rightarrow> 'k option \<Rightarrow> 'v \<Rightarrow> 'v" where
  "dict_get d k dflt = (case k of None \<Rightarrow> dflt | Some k' \<Rightarrow> (case d k' of None \<Rightarrow> dflt | Some v \<Rightarrow> v))"

text \<open>\<open>str(n)\<close> and the \<open>{}\<close> format of an int: its decimal digits.\<close>

fun str_nat :: "nat \<Rightarrow> string" where
  "str_nat n =
     (if n < 10 then [''0123456789'' ! n]
      else str_nat (n div 10) @ [''0123456789'' ! (n mod 10)])"

declare str_nat.simps [simp del]

definition str_int :: "int \<Rightarrow> string" where
  "str_int i = (if i < 0 then ''-'' @ str_nat (nat (- i)) else str_nat (nat i))"

section \<open>The two documents\<close>

text \<open>
  The bootstrap document (\<open>player_data.json\<close>). A field read with \<open>x['k']\<close> is a
  record field; a list read with \<open>.get('k', [])\<close> is a list, the missing key being the
  empty list. The \<open>form\<close> of a player is stored as a decimal string and read through
  \<open>float\<close>.
\<close>

record element =
  el_id :: int
  web_name :: string
  element_type :: int
  form :: string
  transfers_in_event :: int
  event_points :: int
  team :: int

record team_rec =
  team_id :: int
  name :: string
  strength_overall_home :: int
  strength_overall_away :: int
  strength_attack_home :: int
  strength_attack_away :: int
  strength_defence_home :: int
  strength_defence_away :: int

record event =
  event_id :: int
  is_current :: bool

record fixture =
  team_h :: int
  team_a :: int

record player_data =
  events :: "event list"
  elements :: "element list"
  teams :: "team_rec list"
  fixtures_next_gw :: "fixture list"

text \<open>
  The league document (\<open>league_data.json\<close>). The collector stores whatever its fetch
  returned, and a failed fetch returns \<open>None\<close>: the \<open>history\<close> of an entry and its
  record for the gameweek can each be JSON \<open>null\<close>. Keys read with \<open>.get\<close> are
  optional.
\<close>

record pick =
  element :: int
  position :: int
  is_captain :: bool
  multiplier :: int

record entry_history =
  eh_points :: "int option"
  event_transfers :: "int option"
  eh_value :: "int option"
  bank :: "int option"

datatype json_str = JNull | JStr string

record gw_data =
  entry_history :: entry_history
  picks :: "pick list"
  active_chip :: "json_str option"

datatype gw_json = GwNull | GwObj gw_data

record history_row =
  points :: int

datatype history_json = HistNull | HistObj "history_row list option"

record manager =
  entry_name :: string
  total :: int
  rank_sort :: "int option"
  last_rank :: "int option"
  history :: "history_json option"
  gameweek_data :: "string \<rightharpoonup> gw_json"

record league_data =
  results :: "manager list"

section \<open>The analyzer\<close>

record analyzer =
  a_player_data :: player_data
  a_league_data :: league_data
  current_gw :: int
  current_gw_event :: event
  player_id_to_name :: "int \<rightharpoonup> string"
  player_id_to_points :: "int \<rightharpoonup> int"
  player_id_to_position :: "int \<rightharpoonup> int"
  teams_by_id :: "int \<rightharpoonup> team_rec"

text \<open>A dict comprehension \<open>{k(x): v(x) for x in xs}\<close>: a later entry overwrites.\<close>

definition dict_of :: "('a \<Rightarrow> 'k) \<Rightarrow> ('a \<Rightarrow> 'v) \<Rightarrow> 'a list \<Rightarrow> ('k \<rightharpoonup> 'v)" where
  "dict_of k v xs = fold (\<lambda>x m. m(k x \<mapsto> v x)) xs Map.empty"

text \<open>\<open>FPLAnalyzer.load_data\<close>, applied to the two documents read from disk.\<close>

definition load_data :: "player_data \<Rightarrow> league_data \<Rightarrow> error + analyzer" where
  "load_data pd ld =
     (case py_next_default is_current (events pd) of
        None \<Rightarrow> Inl ValueError
      | Some ev \<Rightarrow>
          Inr \<lparr> a_player_data = pd,
                a_league_data = ld,
                current_gw = event_id ev,
                current_gw_event = ev,
                player_id_to_name = dict_of el_id web_name (elements pd),
                player_id_to_points = dict_of el_id event_points (elements pd),
                player_id_to_position = dict_of el_id element_type (elements pd),
                teams_by_id = dict_of team_id (\<lambda>t. t) (teams pd) \<rparr>)"

text \<open>\<open>get_current_gameweek\<close> of the collector (\<open>data_setup.py\<close>).\<close>

fun get_current_gameweek_events :: "event list \<Rightarrow> int option" where
  "get_current_gameweek_events [] = None"
| "get_current_gameweek_events (ev # evs) =
     (if is_current ev then Some (event_id ev) else get_current_gameweek_events evs)"

definition get_current_gameweek :: "player_data \<Rightarrow> int option" where
  "get_current_gameweek bootstrap_data = get_current_gameweek_events (events bootstrap_data)"

subsection \<open>Top-5 selectors\<close>

text \<open>
  \<open>get_form_players\<close> sorts by \<open>float(x['form'])\<close>. The conversion is the
  parameter \<open>float_of\<close>, into any linear order (finite floats are one).
\<close>

definition get_form_players :: "(string \<Rightarrow> 'k::linorder) \<Rightarrow> analyzer \<Rightarrow> element list" where
  "get_form_players float_of st =
     take 5 (py_sorted_reverse (\<lambda>x. float_of (form x)) (elements (a_player_data st)))"

definition get_most_transferred :: "analyzer \<Rightarrow> element list" where
  "get_most_transferred st =
     take 5 (py_sorted_reverse transfers_in_event (elements (a_player_data st)))"

definition get_team_strengths :: "analyzer \<Rightarrow> team_rec list" where
  "get_team_strengths st =
     take 5 (py_sorted_reverse (\<lambda>x. strength_overall_home x + strength_overall_away x)
               (teams (a_player_data st)))"

subsection \<open>Fixture strength\<close>

record analyzed_fixture =
  home_team :: string
  away_team :: string
  home_strength :: rat
  away_strength :: rat

text \<open>
  The body of the loop of \<open>analyze_fixtures\<close>: \<open>None\<close> when the fixture is
  skipped by \<open>if home_team and away_team\<close>, the appended entry otherwise. A team dict
  is never empty (it has its \<open>id\<close>), so it is falsy only when the lookup found none.
  \<open>a / d if d else 0\<close> divides only when \<open>d\<close> is non-zero.
\<close>

definition analyze_fixture :: "analyzer \<Rightarrow> fixture \<Rightarrow> error + analyzed_fixture option" where
  "analyze_fixture st fx =
     (case teams_by_id st (team_h fx) of
        None \<Rightarrow> Inr None
      | Some home \<Rightarrow>
         (case teams_by_id st (team_a fx) of
            None \<Rightarrow> Inr None
          | Some away \<Rightarrow>
             (case (if strength_defence_away away \<noteq> 0
                    then py_truediv (strength_attack_home home) (strength_defence_away away)
                    else Inr 0) of
                Inl e \<Rightarrow> Inl e
              | Inr hs \<Rightarrow>
                 (case (if strength_defence_home home \<noteq> 0
                        then py_truediv (strength_attack_away away) (strength_defence_home home)
                        else Inr 0) of
                    Inl e \<Rightarrow> Inl e
                  | Inr as \<Rightarrow>
                      Inr (Some \<lparr> home_team = name home, away_team = name away,
                                  home_strength = hs, away_strength = as \<rparr>)))))"

fun analyze_fixtures_loop ::
  "analyzer \<Rightarrow> fixture list \<Rightarrow> analyzed_fixture list \<Rightarrow> error + analyzed_fixture list" where
  "analyze_fixtures_loop st [] analyzed = Inr analyzed"
| "analyze_fixtures_loop st (fx # fxs) analyzed =
     (case analyze_fixture st fx of
        Inl e \<Rightarrow> Inl e
      | Inr None \<Rightarrow> analyze_fixtures_loop st fxs analyzed
      | Inr (Some a) \<Rightarrow> analyze_fixtures_loop st fxs (analyzed @ [a]))"

text \<open>\<open>[xs[i:i + 2] for i in range(0, len(xs), 2)]\<close>.\<close>

fun pages_of_2 :: "'a list \<Rightarrow> 'a list list" where
  "pages_of_2 [] = []"
| "pages_of_2 [x] = [[x]]"
| "pages_of_2 (x # y # xs) = [x, y] # pages_of_2 xs"

definition analyze_fixtures :: "analyzer \<Rightarrow> error + analyzed_fixture list list" where
  "analyze_fixtures st =
     (case analyze_fixtures_loop st (fixtures_next_gw (a_player_data st)) [] of
        Inl e \<Rightarrow> Inl e
      | Inr analyzed \<Rightarrow> Inr (pages_of_2 analyzed))"

subsection \<open>Manager summary\<close>

definition get_mini_league_standings :: "analyzer \<Rightarrow> manager list" where
  "get_mini_league_standings st = results (a_league_data st)"

text \<open>
  \<open>manager_data.get('gameweek_data', {}).get(str(gw), {})\<close>: a missing key gives the
  empty dict, a key stored as \<open>null\<close> gives \<open>None\<close>.
\<close>

definition empty_gw_data :: gw_data where
  "empty_gw_data =
     \<lparr> entry_history = \<lparr> eh_points = None, event_transfers = None, eh_value = None, bank = None \<rparr>,
       picks = [], active_chip = None \<rparr>"

definition lookup_gw_data :: "manager \<Rightarrow> int \<Rightarrow> gw_json" where
  "lookup_gw_data m gw =
     (case gameweek_data m (str_int gw) of None \<Rightarrow> GwObj empty_gw_data | Some j \<Rightarrow> j)"

definition get_or :: "'a option \<Rightarrow> 'a \<Rightarrow> 'a" where
  "get_or v dflt = (case v of None \<Rightarrow> dflt | Some x \<Rightarrow> x)"

record manager_details =
  md_points :: int
  captain_name :: string
  md_captain_points :: int
  transfers :: int
  team_value :: rat
  md_bank :: rat
  top_scorer_name :: string
  top_scorer_points :: int
  formation :: string
  chip_used :: json_str
  rank_movement :: int
  manager_name :: string
  total_points :: int

text \<open>
  The number of starting picks whose player has position code \<open>code\<close>
  (\<open>sum(1 for pick in starting_players if ... == code)\<close>).
\<close>

definition formation_count :: "analyzer \<Rightarrow> pick list \<Rightarrow> int \<Rightarrow> nat" where
  "formation_count st starting_players code =
     length (filter (\<lambda>pick. dict_get (player_id_to_position st) (Some (element pick)) 0 = code)
               starting_players)"

text \<open>
  \<open>get_manager_details\<close>. Calling \<open>.get\<close> on a gameweek record that is \<open>null\<close>
  raises \<open>AttributeError\<close>.
\<close>

definition get_manager_details :: "analyzer \<Rightarrow> manager \<Rightarrow> error + manager_details" where
  "get_manager_details st manager_data =
     (case lookup_gw_data manager_data (current_gw st) of
        GwNull \<Rightarrow> Inl AttributeError
      | GwObj gw \<Rightarrow>
         (let eh = entry_history gw;
              pks = picks gw;
              captain_pick = py_next_default is_captain pks;
              captain_id = map_option element captain_pick;
              captain_multiplier = (case captain_pick of None \<Rightarrow> 1 | Some p \<Rightarrow> multiplier p);
              top_scorer_id =
                (if pks \<noteq> []
                 then map_option element
                        (py_max_key (\<lambda>x. dict_get (player_id_to_points st) (Some (element x)) 0) pks)
                 else None);
              starting_players = filter (\<lambda>p. position p \<le> 11) pks
          in Inr \<lparr> md_points = get_or (eh_points eh) 0,
                   captain_name = dict_get (player_id_to_name st) captain_id ''Unknown'',
                   md_captain_points =
                     dict_get (player_id_to_points st) captain_id 0 * captain_multiplier,
                   transfers = get_or (event_transfers eh) 0,
                   team_value = of_int (get_or (eh_value eh) 0) / 10,
                   md_bank = of_int (get_or (bank eh) 0) / 10,
                   top_scorer_name = dict_get (player_id_to_name st) top_scorer_id ''Unknown'',
                   top_scorer_points = dict_get (player_id_to_points st) top_scorer_id 0,
                   formation =
                     str_nat (formation_count st starting_players 2) @ ''-'' @
                     str_nat (formation_count st starting_players 3) @ ''-'' @
                     str_nat (formation_count st starting_players 4),
                   chip_used = get_or (active_chip gw) (JStr ''None''),
                   rank_movement = get_or (rank_sort manager_data) 0 - get_or (last_rank manager_data) 0,
                   manager_name = entry_name manager_data,
                   total_points = total manager_data \<rparr>))"

subsection \<open>Self-team analysis\<close>

text \<open>
  The loop of \<open>calculate_gw_average\<close>, carrying \<open>total_points\<close> and \<open>count\<close>.
  \<open>'current' in manager['history']\<close> raises \<open>TypeError\<close> when the history is
  \<open>null\<close>.
\<close>

fun gw_average_loop :: "int \<Rightarrow> manager list \<Rightarrow> int \<times> int \<Rightarrow> error + (int \<times> int)" where
  "gw_average_loop gw [] acc = Inr acc"
| "gw_average_loop gw (m # ms) (total_pts, cnt) =
     (case history m of
        None \<Rightarrow> gw_average_loop gw ms (total_pts, cnt)
      | Some HistNull \<Rightarrow> Inl TypeError
      | Some (HistObj None) \<Rightarrow> gw_average_loop gw ms (total_pts, cnt)
      | Some (HistObj (Some cur)) \<Rightarrow>
          (if int (length cur) > gw - 1
           then (case py_index cur (gw - 1) of
                   Inl e \<Rightarrow> Inl e
                 | Inr row \<Rightarrow> gw_average_loop gw ms (total_pts + points row, cnt + 1))
           else gw_average_loop gw ms (total_pts, cnt)))"

definition calculate_gw_average :: "league_data \<Rightarrow> int \<Rightarrow> error + rat" where
  "calculate_gw_average mini_league_data gw =
     (case gw_average_loop gw (results mini_league_data) (0, 0) of
        Inl e \<Rightarrow> Inl e
      | Inr (total_pts, cnt) \<Rightarrow>
          (if cnt \<noteq> 0 then py_truediv total_pts cnt else Inr 0))"

definition my_team_name :: string where
  "my_team_name = ''404error.log''"

record analysis =
  an_my_team_name :: string
  my_points :: int
  leader_points :: int
  avg_points_total :: rat
  an_position :: nat
  num_teams :: nat
  my_gw_points :: int
  league_gw_average :: rat
  an_captain_points :: int
  best_possible_captain_points :: int
  captain_success_rate :: rat

text \<open>The section \<open># Position\<close> of \<open>get_my_team_analysis\<close>.\<close>

definition league_position :: "manager list \<Rightarrow> error + nat" where
  "league_position standings =
     py_next_index (\<lambda>m. entry_name m = my_team_name) 1 (py_sorted_reverse total standings)"

text \<open>The section \<open># Captaincy Analysis\<close> of \<open>get_my_team_analysis\<close>.\<close>

definition analysis_captain_points :: "analyzer \<Rightarrow> pick list \<Rightarrow> int" where
  "analysis_captain_points st pks =
     (case py_next_default is_captain pks of
        None \<Rightarrow> 0
      | Some captain_pick \<Rightarrow>
          dict_get (player_id_to_points st) (Some (element captain_pick)) 0 * multiplier captain_pick)"

definition best_player_points :: "analyzer \<Rightarrow> pick list \<Rightarrow> int" where
  "best_player_points st pks =
     (if pks \<noteq> []
      then (case py_max_key (\<lambda>x. dict_get (player_id_to_points st) (Some (element x)) 0)
                   (filter (\<lambda>p. position p \<le> 11) pks) of
              None \<Rightarrow> 0
            | Some best_player \<Rightarrow> dict_get (player_id_to_points st) (Some (element best_player)) 0)
      else 0)"

definition success_rate :: "int \<Rightarrow> int \<Rightarrow> error + rat" where
  "success_rate captain_pts best_possible =
     (if best_possible > 0
      then (case py_truediv captain_pts best_possible of
              Inl e \<Rightarrow> Inl e
            | Inr q \<Rightarrow> Inr (q * 100))
      else Inr 0)"

text \<open>
  \<open>get_my_team_analysis\<close>; \<open>Inr None\<close> is the returned \<open>None\<close>. The statements run
  in the order of the source, so the first exception raised is the one returned.
\<close>

definition get_my_team_analysis :: "analyzer \<Rightarrow> error + analysis option" where
  "get_my_team_analysis st =
     (let standings = get_mini_league_standings st in
      case py_next_default (\<lambda>m. entry_name m = my_team_name) standings of
        None \<Rightarrow> Inr None
      | Some my_team \<Rightarrow>
         (case (if standings \<noteq> []
                then py_truediv (sum_list (map total standings)) (int (length standings))
                else Inr 0) of
            Inl e \<Rightarrow> Inl e
          | Inr avg \<Rightarrow>
             (case league_position standings of
                Inl e \<Rightarrow> Inl e
              | Inr pos \<Rightarrow>
                 (case calculate_gw_average (a_league_data st) (current_gw st) of
                    Inl e \<Rightarrow> Inl e
                  | Inr gw_avg \<Rightarrow>
                     (case lookup_gw_data my_team (current_gw st) of
                        GwNull \<Rightarrow> Inl AttributeError
                      | GwObj gw \<Rightarrow>
                         (case success_rate (analysis_captain_points st (picks gw))
                                 (best_player_points st (picks gw) * 2) of
                            Inl e \<Rightarrow> Inl e
                          | Inr rate \<Rightarrow>
                              Inr (Some
                                \<lparr> an_my_team_name = my_team_name,
                                  my_points = total my_team,
                                  leader_points =
                                    (case py_max_key total standings of
                                       None \<Rightarrow> 0 | Some leader \<Rightarrow> total leader),
                                  avg_points_total = avg,
                                  an_position = pos,
                                  num_teams = length standings,
                                  my_gw_points = get_or (eh_points (entry_history gw)) 0,
                                  league_gw_average = gw_avg,
                                  an_captain_points = analysis_captain_points st (picks gw),
                                  best_possible_captain_points = best_player_points st (picks gw) * 2,
                                  captain_success_rate = rate \<rparr>)))))))"

section \<open>The display\<close>

text \<open>
  The e-ink driver and the font rendering are outside the repository's logic. A page
  image is the list of drawing commands issued on it; the display is its width and
  height. The \<open>:.1f\<close> and \<open>:+.1f\<close> formats of a float are parameters.
\<close>

record display =
  width :: int
  height :: int

datatype draw_cmd =
    DrawText int int string nat
  | DrawLine int int int int

type_synonym image = "draw_cmd list"

definition create_page :: "display \<Rightarrow> image" where
  "create_page d = []"

definition draw_title :: "display \<Rightarrow> image \<Rightarrow> string \<Rightarrow> image" where
  "draw_title d img txt = img @ [DrawText 10 5 txt 24, DrawLine 10 35 (width d - 10) 35]"

text \<open>\<open>for line in lines: draw.text((10, y), line, font=...); y += step\<close>.\<close>

fun draw_lines :: "image \<Rightarrow> int \<Rightarrow> int \<Rightarrow> nat \<Rightarrow> string list \<Rightarrow> image" where
  "draw_lines img y step font [] = img"
| "draw_lines img y step font (l # ls) =
     draw_lines (img @ [DrawText 10 y l font]) (y + step) step font ls"

definition create_my_team_page ::
  "(rat \<Rightarrow> string) \<Rightarrow> (rat \<Rightarrow> string) \<Rightarrow> display \<Rightarrow> analyzer \<Rightarrow> error + image" where
  "create_my_team_page fmt_1f fmt_plus_1f d st =
     (case get_my_team_analysis st of
        Inl e \<Rightarrow> Inl e
      | Inr res \<Rightarrow>
         (let img = draw_title d (create_page d) ''My Team Analysis'' in
          case res of
            None \<Rightarrow>
              Inr (draw_lines img 45 25 16 [''404error.log not found'', ''in this league.''])
          | Some a \<Rightarrow>
              Inr (draw_lines img 45 22 16
                [ ''Team: '' @ an_my_team_name a,
                  ''Total Points: '' @ str_int (my_points a),
                  ''League Pos: '' @ str_nat (an_position a) @ '' of '' @ str_nat (num_teams a),
                  ''Leader Diff: '' @ str_int (leader_points a - my_points a),
                  ''vs. Average: '' @ fmt_plus_1f (of_int (my_points a) - avg_points_total a),
                  [],
                  ''Weekly Analysis:'',
                  ''  This GW'' @ [CHR 0x27] @ ''s Pts: '' @ str_int (my_gw_points a),
                  ''  League GW Avg: '' @ fmt_1f (league_gw_average a),
                  ''  vs. GW Avg: '' @ fmt_plus_1f (of_int (my_gw_points a) - league_gw_average a),
                  [],
                  ''Captaincy Analysis:'',
                  ''  Actual Captain: '' @ str_int (an_captain_points a),
                  ''  Best Captain: '' @ str_int (best_possible_captain_points a),
                  ''  Success Rate: '' @ fmt_1f (captain_success_rate a) @ ''%'' ])))"

section \<open>Reference definitions and example data\<close>

text \<open>
  This definition follows the words of the specification, not the code: the maximum
  raw current-event points among the picks with slot position at most 11, and 0 when
  there is no such pick.
\<close>

definition best_starting_raw_score :: "analyzer \<Rightarrow> pick list \<Rightarrow> int" where
  "best_starting_raw_score st pks =
     (if filter (\<lambda>p. position p \<le> 11) pks = [] then 0
      else Max ((\<lambda>p. dict_get (player_id_to_points st) (Some (element p)) 0)
                 ` set (filter (\<lambda>p. position p \<le> 11) pks)))"

text \<open>
  These two definitions follow the words of the specification as well: the analyzed
  entry of a fixture whose teams are both known, with each ratio taken as 0 when its
  denominator is 0, and the test that both team ids of a fixture are in the lookup.
\<close>

definition fixture_entry :: "team_rec \<Rightarrow> team_rec \<Rightarrow> analyzed_fixture" where
  "fixture_entry home away =
     \<lparr> home_team = name home, away_team = name away,
       home_strength =
         (if strength_defence_away away = 0 then 0
          else of_int (strength_attack_home home) / of_int (strength_defence_away away)),
       away_strength =
         (if strength_defence_home home = 0 then 0
          else of_int (strength_attack_away away) / of_int (strength_defence_home home)) \<rparr>"

definition both_teams_found :: "analyzer \<Rightarrow> fixture \<Rightarrow> bool" where
  "both_teams_found st fx =
     (teams_by_id st (team_h fx) \<noteq> None \<and> teams_by_id st (team_a fx) \<noteq> None)"

text \<open>A small pair of documents on which the statements below are evaluated.\<close>

definition example_player_data :: player_data where
  "example_player_data =
     \<lparr> events = [\<lparr> event_id = 1, is_current = False \<rparr>, \<lparr> event_id = 2, is_current = True \<rparr>],
       elements =
         [\<lparr> el_id = 1, web_name = ''Alpha'', element_type = 3, form = ''7.5'',
             transfers_in_event = 100, event_points = 5, team = 1 \<rparr>,
          \<lparr> el_id = 2, web_name = ''Bravo'', element_type = 4, form = ''6.0'',
             transfers_in_event = 300, event_points = 8, team = 2 \<rparr>,
          \<lparr> el_id = 3, web_name = ''Charlie'', element_type = 2, form = ''7.5'',
             transfers_in_event = 100, event_points = - 1, team = 1 \<rparr>],
       teams =
         [\<lparr> team_id = 1, name = ''Reds'', strength_overall_home = 1200, strength_overall_away = 1100,
             strength_attack_home = 1200, strength_attack_away = 1100,
             strength_defence_home = 0, strength_defence_away = 1000 \<rparr>,
          \<lparr> team_id = 2, name = ''Blues'', strength_overall_home = 1100, strength_overall_away = 1000,
             strength_attack_home = 1000, strength_attack_away = 900,
             strength_defence_home = 1250, strength_defence_away = 800 \<rparr>],
       fixtures_next_gw = [\<lparr> team_h = 1, team_a = 2 \<rparr>, \<lparr> team_h = 2, team_a = 99 \<rparr>] \<rparr>"

definition example_gw_data :: "pick list \<Rightarrow> gw_data" where
  "example_gw_data pks =
     \<lparr> entry_history = \<lparr> eh_points = Some 50, event_transfers = Some 1,
                          eh_value = Some 1003, bank = Some 5 \<rparr>,
       picks = pks, active_chip = Some JNull \<rparr>"

definition example_manager :: "string \<Rightarrow> int \<Rightarrow> pick list \<Rightarrow> manager" where
  "example_manager nm tot pks =
     \<lparr> entry_name = nm, total = tot, rank_sort = Some 2, last_rank = Some 3,
       history = Some (HistObj (Some [\<lparr> points = 40 \<rparr>, \<lparr> points = 50 \<rparr>])),
       gameweek_data = [''2'' \<mapsto> GwObj (example_gw_data pks)] \<rparr>"

definition example_league :: "pick list \<Rightarrow> league_data" where
  "example_league pks =
     \<lparr> results = [example_manager ''A'' 100 [], example_manager ''404error.log'' 80 pks,
                  example_manager ''C'' 120 []] \<rparr>"

definition example_league_without_self :: league_data where
  "example_league_without_self =
     \<lparr> results = [example_manager ''A'' 100 [], example_manager ''C'' 120 []] \<rparr>"

text \<open>
  An entry as the collector writes it when the fetch of the gameweek picks fails: the
  record for gameweek 2 is \<open>null\<close>.
\<close>

definition example_manager_null_record :: manager where
  "example_manager_null_record =
     \<lparr> entry_name = ''A'', total = 100, rank_sort = Some 2, last_rank = Some 3,
       history = Some (HistObj (Some [\<lparr> points = 40 \<rparr>, \<lparr> points = 50 \<rparr>])),
       gameweek_data = [''2'' \<mapsto> GwNull] \<rparr>"

definition example_league_null_record :: league_data where
  "example_league_null_record = \<lparr> results = [example_manager_null_record] \<rparr>"

text \<open>The analyzer that \<open>load_data\<close> builds from the example documents.\<close>

definition example_analyzer :: "league_data \<Rightarrow> analyzer" where
  "example_analyzer ld =
     \<lparr> a_player_data = example_player_data,
       a_league_data = ld,
       current_gw = 2,
       current_gw_event = \<lparr> event_id = 2, is_current = True \<rparr>,
       player_id_to_name = dict_of el_id web_name (elements example_player_data),
       player_id_to_points = dict_of el_id event_points (elements example_player_data),
       player_id_to_position = dict_of el_id element_type (elements example_player_data),
       teams_by_id = dict_of team_id (\<lambda>t. t) (teams example_player_data) \<rparr>"

text \<open>
  Three pick lists for the self entry: a captain with 5 points doubled beside a
  starter with 8; the 8-point starter as triple captain; and a lone starter with
  \<open>- 1\<close> points as captain.
\<close>

definition picks_62 :: "pick list" where
  "picks_62 = [\<lparr> element = 1, position = 1, is_captain = True, multiplier = 2 \<rparr>,
               \<lparr> element = 2, position = 2, is_captain = False, multiplier = 1 \<rparr>,
               \<lparr> element = 3, position = 12, is_captain = False, multiplier = 0 \<rparr>]"

definition picks_150 :: "pick list" where
  "picks_150 = [\<lparr> element = 1, position = 1, is_captain = False, multiplier = 1 \<rparr>,
                \<lparr> element = 2, position = 2, is_captain = True, multiplier = 3 \<rparr>,
                \<lparr> element = 3, position = 12, is_captain = False, multiplier = 0 \<rparr>]"

definition picks_negative :: "pick list" where
  "picks_negative = [\<lparr> element = 3, position = 1, is_captain = True, multiplier = 2 \<rparr>]"

section \<open>Properties of the primitives\<close>

lemma length_py_sorted_reverse: "length (py_sorted_reverse key xs) = length xs"
  by (simp add: py_sorted_reverse_def)

lemma mset_py_sorted_reverse: "mset (py_sorted_reverse key xs) = mset xs"
  by (simp add: py_sorted_reverse_def)

lemma set_py_sorted_reverse: "set (py_sorted_reverse key xs) = set xs"
  by (simp add: py_sorted_reverse_def)

lemma descending_py_sorted_reverse:
  "sorted_wrt (\<lambda>a b. key b \<le> key a) (py_sorted_reverse key xs)"
proof -
  have "sorted (map key (sort_key key (rev xs)))"
    by simp
  then have "sorted_wrt (\<lambda>a b. key a \<le> key b) (sort_key key (rev xs))"
    by (simp add: sorted_map)
  then show ?thesis
    by (simp add: py_sorted_reverse_def sorted_wrt_rev)
qed

lemma stable_py_sorted_reverse:
  "filter (\<lambda>y. key y = k) (py_sorted_reverse key xs) = filter (\<lambda>y. key y = k) xs"
proof -
  have "filter (\<lambda>y. key y = k) (sort_key key (rev xs)) = filter (\<lambda>y. key y = k) (rev xs)"
    by (rule sort_key_stable)
  then have "rev (filter (\<lambda>y. key y = k) (sort_key key (rev xs))) = filter (\<lambda>y. key y = k) xs"
    by (simp add: rev_filter)
  then show ?thesis
    by (simp add: py_sorted_reverse_def rev_filter)
qed

lemma top5_length: "length (take 5 (py_sorted_reverse key xs)) = min 5 (length xs)"
  by (simp add: length_py_sorted_reverse min.commute)

lemma top5_descending: "sorted_wrt (\<lambda>a b. key b \<le> key a) (take 5 (py_sorted_reverse key xs))"
  using descending_py_sorted_reverse [of key xs] by (rule sorted_wrt_take)

lemma top5_stable:
  "prefix (filter (\<lambda>y. key y = k) (take 5 (py_sorted_reverse key xs))) (filter (\<lambda>y. key y = k) xs)"
proof -
  have "prefix (take 5 (py_sorted_reverse key xs)) (py_sorted_reverse key xs)"
    by (rule take_is_prefix)
  then have "prefix (filter (\<lambda>y. key y = k) (take 5 (py_sorted_reverse key xs)))
                    (filter (\<lambda>y. key y = k) (py_sorted_reverse key xs))"
    by (rule filter_mono_prefix)
  then show ?thesis
    by (simp add: stable_py_sorted_reverse)
qed

lemma top5_head:
  "\<exists>rest. mset (take 5 (py_sorted_reverse key xs) @ rest) = mset xs
     \<and> sorted_wrt (\<lambda>a b. key b \<le> key a) (take 5 (py_sorted_reverse key xs) @ rest)"
proof (intro exI [of _ "drop 5 (py_sorted_reverse key xs)"] conjI)
  show "mset (take 5 (py_sorted_reverse key xs) @ drop 5 (py_sorted_reverse key xs)) = mset xs"
    by (simp only: append_take_drop_id mset_py_sorted_reverse)
  show "sorted_wrt (\<lambda>a b. key b \<le> key a)
          (take 5 (py_sorted_reverse key xs) @ drop 5 (py_sorted_reverse key xs))"
    by (simp only: append_take_drop_id descending_py_sorted_reverse)
qed

section \<open>Properties of the analysis functions\<close>

subsection \<open>Searching, maximum and paging\<close>

lemma py_next_default_filter:
  "py_next_default P xs = (case filter P xs of [] \<Rightarrow> None | x # _ \<Rightarrow> Some x)"
  by (induction xs) auto

lemma py_next_default_None: "(py_next_default P xs = None) = (\<forall>x\<in>set xs. \<not> P x)"
  by (induction xs) auto

lemma py_next_default_Some: "py_next_default P xs = Some x \<Longrightarrow> x \<in> set xs \<and> P x"
  by (induction xs) (auto split: if_splits)

lemma py_next_index_takeWhile:
  "\<exists>x\<in>set xs. P x \<Longrightarrow> py_next_index P n xs = Inr (n + length (takeWhile (\<lambda>x. \<not> P x) xs))"
proof (induction xs arbitrary: n)
  case Nil
  then show ?case by simp
next
  case (Cons a xs)
  show ?case
  proof (cases "P a")
    case True
    then show ?thesis by simp
  next
    case False
    with Cons.prems have "\<exists>x\<in>set xs. P x" by auto
    from Cons.IH [OF this, of "Suc n"] False show ?thesis by simp
  qed
qed

lemma py_next_index_none:
  "\<forall>x\<in>set xs. \<not> P x \<Longrightarrow> py_next_index P n xs = Inl StopIteration"
  by (induction xs arbitrary: n) auto

lemma foldl_max_key:
  "foldl (\<lambda>b y. if key b < key y then y else b) x xs \<in> set (x # xs)
   \<and> (\<forall>z\<in>set (x # xs). key z \<le> key (foldl (\<lambda>b y. if key b < key y then y else b) x xs))"
  for key :: "'a \<Rightarrow> 'k::linorder"
proof (induction xs arbitrary: x)
  case Nil
  then show ?case by simp
next
  case (Cons y ys)
  show ?case
  proof (cases "key x < key y")
    case True
    with Cons [of y] show ?thesis
      by (auto intro: order_trans less_imp_le)
  next
    case False
    with Cons [of x] show ?thesis
      by (auto intro: order_trans)
  qed
qed

lemma py_max_key_Max:
  fixes key :: "'a \<Rightarrow> 'k::linorder"
  assumes "xs \<noteq> []"
  shows "\<exists>b. py_max_key key xs = Some b \<and> b \<in> set xs \<and> key b = Max (key ` set xs)"
proof -
  from assms obtain x ys where xs: "xs = x # ys" by (cases xs) auto
  let ?b = "foldl (\<lambda>b y. if key b < key y then y else b) x ys"
  from foldl_max_key [of key x ys]
  have b: "?b \<in> set xs" and le: "\<forall>z\<in>set xs. key z \<le> key ?b"
    by (simp_all add: xs)
  have "Max (key ` set xs) = key ?b"
    using b le by (intro Max_eqI) auto
  with b show ?thesis by (simp add: xs)
qed

lemma concat_pages_of_2: "concat (pages_of_2 xs) = xs"
  by (induction xs rule: pages_of_2.induct) auto

lemma py_index_error: "py_index xs i = Inl e \<Longrightarrow> e = IndexError"
  by (auto simp: py_index_def split: if_splits)

subsection \<open>Lookup tables\<close>

lemma fold_upd_other:
  "i \<notin> k ` set xs \<Longrightarrow> fold (\<lambda>x m. m(k x \<mapsto> v x)) xs m0 i = m0 i"
  by (induction xs arbitrary: m0) auto

lemma dict_of_absent: "i \<notin> k ` set xs \<Longrightarrow> dict_of k v xs i = None"
  by (simp add: dict_of_def fold_upd_other)

lemma fold_upd_distinct:
  "distinct (map k xs) \<Longrightarrow> x \<in> set xs \<Longrightarrow> fold (\<lambda>x m. m(k x \<mapsto> v x)) xs m0 (k x) = Some (v x)"
proof (induction xs arbitrary: m0)
  case Nil
  then show ?case by simp
next
  case (Cons a xs)
  show ?case
  proof (cases "x = a")
    case True
    with Cons.prems have "k a \<notin> k ` set xs" by auto
    then have "fold (\<lambda>x m. m(k x \<mapsto> v x)) xs (m0(k a \<mapsto> v a)) (k a) = (m0(k a \<mapsto> v a)) (k a)"
      by (rule fold_upd_other)
    then have "fold (\<lambda>x m. m(k x \<mapsto> v x)) xs (m0(k a \<mapsto> v a)) (k a) = Some (v a)"
      by (simp only: fun_upd_same)
    then show ?thesis unfolding True by (simp only: fold_simps)
  next
    case False
    with Cons show ?thesis by auto
  qed
qed

lemma dict_of_distinct:
  "distinct (map k xs) \<Longrightarrow> x \<in> set xs \<Longrightarrow> dict_of k v xs (k x) = Some (v x)"
  by (simp add: dict_of_def fold_upd_distinct)

subsection \<open>Rank in a stable descending sort\<close>

lemma length_filter_ge_split:
  fixes key :: "'a \<Rightarrow> 'k::linorder"
  assumes "\<forall>a\<in>set as. t \<le> key a"
  shows "length as = length (filter (\<lambda>x. t < key x) as) + length (filter (\<lambda>x. key x = t) as)"
  using assms by (induction as) auto

lemma rank_in_stable_descending:
  fixes key :: "'a \<Rightarrow> 'k::linorder"
  assumes uniq: "filter P xs = [me]"
  shows "length (takeWhile (\<lambda>x. \<not> P x) (py_sorted_reverse key xs))
         = length (filter (\<lambda>x. key me < key x) xs)
           + length (takeWhile (\<lambda>x. \<not> P x) (filter (\<lambda>x. key x = key me) xs))"
proof -
  define ys where "ys = py_sorted_reverse key xs"
  define as where "as = takeWhile (\<lambda>x. \<not> P x) ys"
  define rest where "rest = dropWhile (\<lambda>x. \<not> P x) ys"
  have ms: "mset ys = mset xs"
    by (simp add: ys_def mset_py_sorted_reverse)
  have "mset (filter P ys) = mset (filter P xs)"
    by (simp add: ms)
  then have "mset (filter P ys) = {#me#}"
    unfolding uniq by simp
  then have fy: "filter P ys = [me]"
    by (simp only: mset_single_iff)
  have split: "ys = as @ rest"
    by (simp add: as_def rest_def)
  have as_not: "\<forall>a\<in>set as. \<not> P a"
    unfolding as_def by (auto dest: set_takeWhileD)
  then have fas: "filter P as = []"
    by (simp add: filter_empty_conv)
  have "rest \<noteq> []"
  proof
    assume "rest = []"
    with split fas have "filter P ys = []" by simp
    with fy show False by simp
  qed
  then obtain z bs where rest: "rest = z # bs"
    by (cases rest) auto
  have Pz: "P z"
    using rest by (simp add: rest_def dropWhile_eq_Cons_conv)
  from fy split fas rest Pz have z: "z = me" and fbs: "filter P bs = []"
    by simp_all
  have ys: "ys = as @ me # bs"
    using split rest z by simp
  have desc: "sorted_wrt (\<lambda>a b. key b \<le> key a) ys"
    by (simp add: ys_def descending_py_sorted_reverse)
  have as_ge: "\<forall>a\<in>set as. key me \<le> key a"
    using desc by (auto simp: ys sorted_wrt_append)
  have bs_le: "\<forall>b\<in>set bs. key b \<le> key me"
    using desc by (auto simp: ys sorted_wrt_append)
  have gt_bs: "filter (\<lambda>x. key me < key x) bs = []"
    using bs_le by (auto simp: filter_empty_conv)
  have "mset (filter (\<lambda>x. key me < key x) ys) = mset (filter (\<lambda>x. key me < key x) xs)"
    by (simp add: ms)
  then have "length (filter (\<lambda>x. key me < key x) ys) = length (filter (\<lambda>x. key me < key x) xs)"
    by (metis size_mset)
  then have gt: "length (filter (\<lambda>x. key me < key x) xs) = length (filter (\<lambda>x. key me < key x) as)"
    by (simp add: ys gt_bs)
  have "filter (\<lambda>x. key x = key me) xs = filter (\<lambda>x. key x = key me) ys"
    by (simp add: ys_def stable_py_sorted_reverse)
  also have "\<dots> = filter (\<lambda>x. key x = key me) as @ me # filter (\<lambda>x. key x = key me) bs"
    by (simp add: ys)
  finally have fx: "filter (\<lambda>x. key x = key me) xs
                    = filter (\<lambda>x. key x = key me) as @ me # filter (\<lambda>x. key x = key me) bs" .
  have "takeWhile (\<lambda>x. \<not> P x) (filter (\<lambda>x. key x = key me) as @ me # filter (\<lambda>x. key x = key me) bs)
        = filter (\<lambda>x. key x = key me) as @ takeWhile (\<lambda>x. \<not> P x) (me # filter (\<lambda>x. key x = key me) bs)"
    using as_not by (intro takeWhile_append2) simp
  then have "takeWhile (\<lambda>x. \<not> P x) (filter (\<lambda>x. key x = key me) xs)
                = filter (\<lambda>x. key x = key me) as"
    using Pz z by (simp add: fx)
  then have eq: "length (takeWhile (\<lambda>x. \<not> P x) (filter (\<lambda>x. key x = key me) xs))
                = length (filter (\<lambda>x. key x = key me) as)"
    by simp
  have "length as = length (filter (\<lambda>x. key me < key x) as) + length (filter (\<lambda>x. key x = key me) as)"
    using as_ge by (rule length_filter_ge_split)
  with gt eq show ?thesis
    by (simp add: as_def ys_def)
qed

subsection \<open>Current gameweek\<close>

lemma get_current_gameweek_events_filter:
  "get_current_gameweek_events evs =
     (case filter is_current evs of [] \<Rightarrow> None | ev # _ \<Rightarrow> Some (event_id ev))"
  by (induction evs) auto

lemma get_current_gameweek_events_None:
  "(get_current_gameweek_events evs = None) = (\<forall>ev\<in>set evs. \<not> is_current ev)"
  by (induction evs) auto

subsection \<open>Fixture strength\<close>

lemma analyze_fixture_found:
  "teams_by_id st (team_h fx) = Some home \<Longrightarrow> teams_by_id st (team_a fx) = Some away
   \<Longrightarrow> analyze_fixture st fx = Inr (Some (fixture_entry home away))"
  by (simp add: analyze_fixture_def fixture_entry_def py_truediv_def)

lemma analyze_fixture_missing:
  "\<not> both_teams_found st fx \<Longrightarrow> analyze_fixture st fx = Inr None"
  by (auto simp: analyze_fixture_def both_teams_found_def split: option.splits)

lemma analyze_fixtures_loop_eq:
  "analyze_fixtures_loop st fxs acc =
     Inr (acc @ map (\<lambda>fx. fixture_entry (the (teams_by_id st (team_h fx)))
                                         (the (teams_by_id st (team_a fx))))
                  (filter (both_teams_found st) fxs))"
proof (induction fxs arbitrary: acc)
  case Nil
  then show ?case by simp
next
  case (Cons fx fxs)
  show ?case
  proof (cases "both_teams_found st fx")
    case True
    then obtain home away where "teams_by_id st (team_h fx) = Some home"
      "teams_by_id st (team_a fx) = Some away"
      by (auto simp: both_teams_found_def)
    with True Cons [of "acc @ [fixture_entry home away]"] show ?thesis
      by (simp add: analyze_fixture_found)
  next
    case False
    with Cons [of acc] show ?thesis
      by (simp add: analyze_fixture_missing)
  qed
qed

lemma analyze_fixtures_eq:
  "\<exists>pages. analyze_fixtures st = Inr pages
     \<and> concat pages =
         map (\<lambda>fx. fixture_entry (the (teams_by_id st (team_h fx)))
                                 (the (teams_by_id st (team_a fx))))
           (filter (both_teams_found st) (fixtures_next_gw (a_player_data st)))"
  by (simp add: analyze_fixtures_def analyze_fixtures_loop_eq concat_pages_of_2)

subsection \<open>Manager summary\<close>

lemma three_buckets:
  "length (filter (\<lambda>p. c p = (2::int)) xs) + length (filter (\<lambda>p. c p = 3) xs)
     + length (filter (\<lambda>p. c p = 4) xs) \<le> length xs"
  by (induction xs) auto

lemma starters_at_most_11:
  assumes "distinct (map position pks)" and "\<forall>p\<in>set pks. 1 \<le> position p"
  shows "length (filter (\<lambda>p. position p \<le> 11) pks) \<le> 11"
proof -
  let ?S = "filter (\<lambda>p. position p \<le> 11) pks"
  have d: "distinct (map position ?S)"
    using assms(1) by (rule distinct_map_filter)
  have "set (map position ?S) \<subseteq> {1..11}"
    using assms(2) by auto
  then have "card (set (map position ?S)) \<le> card {1..11::int}"
    by (intro card_mono) auto
  moreover have "card (set (map position ?S)) = length ?S"
    using d by (simp add: distinct_card del: set_map)
  ultimately show ?thesis by simp
qed

lemma get_manager_details_captain:
  assumes "lookup_gw_data m (current_gw st) = GwObj gw"
  shows "\<exists>d. get_manager_details st m = Inr d
           \<and> md_captain_points d =
               (case filter is_captain (picks gw) of
                  [] \<Rightarrow> 0
                | c # _ \<Rightarrow> dict_get (player_id_to_points st) (Some (element c)) 0 * multiplier c)"
  using assms
  by (simp add: get_manager_details_def Let_def py_next_default_filter dict_get_def
      split: list.splits)

text \<open>
  The manager summary in terms of the stored document: the record is read under the
  key \<open>str(current_gw)\<close>; an object or a missing key gives a summary, \<open>null\<close>
  raises.
\<close>

lemma get_manager_details_record:
  assumes "gameweek_data m (str_int (current_gw st)) = Some (GwObj gw)"
  shows "\<exists>d. get_manager_details st m = Inr d
           \<and> md_captain_points d =
               (case filter is_captain (picks gw) of
                  [] \<Rightarrow> 0
                | c # _ \<Rightarrow> dict_get (player_id_to_points st) (Some (element c)) 0 * multiplier c)"
proof -
  from assms have "lookup_gw_data m (current_gw st) = GwObj gw"
    by (simp add: lookup_gw_data_def)
  then show ?thesis
    by (rule get_manager_details_captain)
qed

lemma get_manager_details_no_record:
  assumes "gameweek_data m (str_int (current_gw st)) = None"
  shows "\<exists>d. get_manager_details st m = Inr d \<and> md_captain_points d = 0"
proof -
  from assms have "lookup_gw_data m (current_gw st) = GwObj empty_gw_data"
    by (simp add: lookup_gw_data_def)
  from get_manager_details_captain [OF this] show ?thesis
    by (simp add: empty_gw_data_def)
qed

lemma get_manager_details_null_record:
  assumes "gameweek_data m (str_int (current_gw st)) = Some GwNull"
  shows "get_manager_details st m = Inl AttributeError"
  using assms by (simp add: get_manager_details_def lookup_gw_data_def)

lemma get_manager_details_raises_iff:
  "(\<exists>e. get_manager_details st m = Inl e)
     = (gameweek_data m (str_int (current_gw st)) = Some GwNull)"
  by (auto simp: get_manager_details_def lookup_gw_data_def Let_def
      split: option.splits gw_json.splits)

lemma load_data_player_points:
  assumes "load_data pd ld = Inr st" and "distinct (map el_id (elements pd))"
    and "pl \<in> set (elements pd)"
  shows "dict_get (player_id_to_points st) (Some (el_id pl)) 0 = event_points pl"
proof -
  from assms(1) have "player_id_to_points st = dict_of el_id event_points (elements pd)"
    by (auto simp: load_data_def split: option.splits)
  with dict_of_distinct [OF assms(2,3), of event_points] show ?thesis
    by (simp add: dict_get_def)
qed

subsection \<open>Self-team analysis\<close>

lemma success_rate_eq:
  "success_rate cp bp = Inr (if 0 < bp then of_int cp / of_int bp * 100 else 0)"
  by (simp add: success_rate_def py_truediv_def)

lemma best_player_points_eq: "best_player_points st pks = best_starting_raw_score st pks"
proof (cases "filter (\<lambda>p. position p \<le> 11) pks = []")
  case True
  then show ?thesis
    by (simp add: best_player_points_def best_starting_raw_score_def)
next
  case False
  then have "pks \<noteq> []" by auto
  from py_max_key_Max [OF False, of "\<lambda>x. dict_get (player_id_to_points st) (Some (element x)) 0"]
  show ?thesis
    using False \<open>pks \<noteq> []\<close>
    by (auto simp: best_player_points_def best_starting_raw_score_def)
qed

lemma league_position_found:
  assumes "py_next_default (\<lambda>m. entry_name m = my_team_name) standings = Some my_team"
  shows "league_position standings =
           Inr (Suc (length (takeWhile (\<lambda>m. entry_name m \<noteq> my_team_name)
                               (py_sorted_reverse total standings))))"
proof -
  from py_next_default_Some [OF assms]
  have "\<exists>m\<in>set (py_sorted_reverse total standings). entry_name m = my_team_name"
    by (auto simp: set_py_sorted_reverse)
  from py_next_index_takeWhile [OF this, of 1] show ?thesis
    by (simp add: league_position_def)
qed

lemma get_my_team_analysis_not_found:
  "py_next_default (\<lambda>m. entry_name m = my_team_name) (results (a_league_data st)) = None
   \<Longrightarrow> get_my_team_analysis st = Inr None"
  by (simp add: get_my_team_analysis_def get_mini_league_standings_def)

lemma get_my_team_analysis_found:
  assumes me: "py_next_default (\<lambda>m. entry_name m = my_team_name) (results (a_league_data st)) = Some my_team"
  shows "get_my_team_analysis st =
     (case calculate_gw_average (a_league_data st) (current_gw st) of
        Inl e \<Rightarrow> Inl e
      | Inr gw_avg \<Rightarrow>
         (case lookup_gw_data my_team (current_gw st) of
            GwNull \<Rightarrow> Inl AttributeError
          | GwObj gw \<Rightarrow>
              Inr (Some
                \<lparr> an_my_team_name = my_team_name,
                  my_points = total my_team,
                  leader_points =
                    (case py_max_key total (results (a_league_data st)) of
                       None \<Rightarrow> 0 | Some leader \<Rightarrow> total leader),
                  avg_points_total =
                    of_int (sum_list (map total (results (a_league_data st))))
                      / of_int (int (length (results (a_league_data st)))),
                  an_position =
                    Suc (length (takeWhile (\<lambda>m. entry_name m \<noteq> my_team_name)
                                  (py_sorted_reverse total (results (a_league_data st))))),
                  num_teams = length (results (a_league_data st)),
                  my_gw_points = get_or (eh_points (entry_history gw)) 0,
                  league_gw_average = gw_avg,
                  an_captain_points = analysis_captain_points st (picks gw),
                  best_possible_captain_points = best_starting_raw_score st (picks gw) * 2,
                  captain_success_rate =
                    (if 0 < best_starting_raw_score st (picks gw) * 2
                     then of_int (analysis_captain_points st (picks gw))
                            / of_int (best_starting_raw_score st (picks gw) * 2) * 100
                     else 0) \<rparr>)))"
proof -
  from py_next_default_Some [OF me] have ne: "results (a_league_data st) \<noteq> []"
    by auto
  show ?thesis
    using me ne league_position_found [OF me]
    by (simp add: get_my_team_analysis_def get_mini_league_standings_def py_truediv_def
        success_rate_eq best_player_points_eq Let_def
        split: sum.splits gw_json.splits)
qed

lemma gw_average_loop_error:
  "gw_average_loop gw ms acc = Inl e \<Longrightarrow> e = TypeError \<or> e = IndexError"
proof (induction gw ms acc rule: gw_average_loop.induct)
  case (1 gw acc)
  then show ?case by simp
next
  case (2 gw m ms total_pts cnt)
  then show ?case
    by (auto split: option.splits history_json.splits if_splits sum.splits dest: py_index_error)
qed

lemma calculate_gw_average_error:
  "calculate_gw_average ld gw = Inl e \<Longrightarrow> e = TypeError \<or> e = IndexError"
  by (auto simp: calculate_gw_average_def py_truediv_def
      split: sum.splits prod.splits if_splits dest: gw_average_loop_error)

lemma get_my_team_analysis_error:
  assumes "get_my_team_analysis st = Inl e"
  shows "e = TypeError \<or> e = IndexError \<or> e = AttributeError"
proof (cases "py_next_default (\<lambda>m. entry_name m = my_team_name) (results (a_league_data st))")
  case None
  from get_my_team_analysis_not_found [OF None] assms show ?thesis by simp
next
  case (Some my_team)
  from get_my_team_analysis_found [OF Some] assms show ?thesis
    by (auto split: sum.splits gw_json.splits dest: calculate_gw_average_error)
qed

lemma get_my_team_analysis_result:
  assumes me: "py_next_default (\<lambda>m. entry_name m = my_team_name) (results (a_league_data st)) = Some my_team"
    and avg: "calculate_gw_average (a_league_data st) (current_gw st) = Inr gw_avg"
    and gw: "lookup_gw_data my_team (current_gw st) = GwObj gw"
  shows "\<exists>a. get_my_team_analysis st = Inr (Some a)
     \<and> an_position a =
         Suc (length (takeWhile (\<lambda>m. entry_name m \<noteq> my_team_name)
                        (py_sorted_reverse total (results (a_league_data st)))))
     \<and> an_captain_points a = analysis_captain_points st (picks gw)
     \<and> best_possible_captain_points a = best_starting_raw_score st (picks gw) * 2
     \<and> captain_success_rate a =
         (if 0 < best_starting_raw_score st (picks gw) * 2
          then of_int (analysis_captain_points st (picks gw))
                 / of_int (best_starting_raw_score st (picks gw) * 2) * 100
          else 0)"
  using get_my_team_analysis_found [OF me] avg gw by simp

subsection \<open>The example documents\<close>

lemma str_int_2: "str_int 2 = ''2''"
  by (simp add: str_int_def str_nat.simps)

lemma str_int_examples:
  "str_int 0 = ''0''" "str_int 5 = ''5''" "str_int 38 = ''38''" "str_int (- 3) = ''-3''"
  by (simp_all add: str_int_def str_nat.simps)

lemma example_lookup_gw:
  "lookup_gw_data (example_manager nm tot pks) 2 = GwObj (example_gw_data pks)"
  by (simp add: lookup_gw_data_def example_manager_def str_int_2)

lemma load_example: "load_data example_player_data ld = Inr (example_analyzer ld)"
  by (simp add: load_data_def example_player_data_def example_analyzer_def)

lemma example_me:
  "py_next_default (\<lambda>m. entry_name m = my_team_name)
     (results (a_league_data (example_analyzer (example_league pks))))
   = Some (example_manager ''404error.log'' 80 pks)"
  by (simp add: example_analyzer_def example_league_def example_manager_def my_team_name_def)

lemma example_avg:
  "calculate_gw_average (a_league_data (example_analyzer (example_league pks)))
     (current_gw (example_analyzer (example_league pks))) = Inr 50"
  by (simp add: example_analyzer_def example_league_def example_manager_def
      calculate_gw_average_def py_index_def py_truediv_def)

lemma example_gw:
  "lookup_gw_data (example_manager ''404error.log'' 80 pks)
     (current_gw (example_analyzer (example_league pks))) = GwObj (example_gw_data pks)"
  by (simp add: example_analyzer_def example_lookup_gw)

lemma example_points:
  "player_id_to_points (example_analyzer ld) = [1 \<mapsto> 5, 2 \<mapsto> 8, 3 \<mapsto> - 1]"
  by (simp add: example_analyzer_def example_player_data_def dict_of_def)

lemma example_best_62:
  "best_starting_raw_score (example_analyzer ld) picks_62 = 8"
  by (simp add: best_starting_raw_score_def picks_62_def example_points dict_get_def)

lemma example_captain_62:
  "analysis_captain_points (example_analyzer ld) picks_62 = 10"
  by (simp add: analysis_captain_points_def picks_62_def example_points dict_get_def)

section \<open>Claims\<close>

text \<open>
  C1. For a player collection of size N, the top-5 form selector and the top-5
  transfers-in selector each return exactly min(5, N) entries, in descending order of
  the chosen field (the float value of \<open>form\<close>, \<open>transfers_in_event\<close>); the
  returned entries with a given field value are the first entries with that value of
  the input collection, in their input order (the sort is stable). The returned
  entries are the head of a descending rearrangement of the whole collection.
\<close>

theorem C1_top5_selectors:
  "length (get_form_players float_of st) = min 5 (length (elements (a_player_data st)))
   \<and> sorted_wrt (\<lambda>a b. float_of (form b) \<le> float_of (form a)) (get_form_players float_of st)
   \<and> prefix (filter (\<lambda>y. float_of (form y) = k) (get_form_players float_of st))
             (filter (\<lambda>y. float_of (form y) = k) (elements (a_player_data st)))
   \<and> (\<exists>rest. mset (get_form_players float_of st @ rest) = mset (elements (a_player_data st))
          \<and> sorted_wrt (\<lambda>a b. float_of (form b) \<le> float_of (form a))
                (get_form_players float_of st @ rest))
   \<and> length (get_most_transferred st) = min 5 (length (elements (a_player_data st)))
   \<and> sorted_wrt (\<lambda>a b. transfers_in_event b \<le> transfers_in_event a) (get_most_transferred st)
   \<and> prefix (filter (\<lambda>y. transfers_in_event y = n) (get_most_transferred st))
             (filter (\<lambda>y. transfers_in_event y = n) (elements (a_player_data st)))
   \<and> (\<exists>rest. mset (get_most_transferred st @ rest) = mset (elements (a_player_data st))
          \<and> sorted_wrt (\<lambda>a b. transfers_in_event b \<le> transfers_in_event a)
                (get_most_transferred st @ rest))"
  unfolding get_form_players_def get_most_transferred_def
  by (intro conjI top5_length top5_descending top5_stable top5_head)

text \<open>
  C2. The manager summary is meant to report, for every manager entry, captain points
  equal to the flagged pick's player points times its multiplier, and 0 when no pick
  is flagged. It does so when the entry's record for the current gameweek is an object
  or is missing (lemmas \<open>get_manager_details_record\<close> and
  \<open>get_manager_details_no_record\<close>). On a league document in which the collector
  stored \<open>null\<close> for that record, \<open>get_manager_details\<close> raises
  \<open>AttributeError\<close> and produces no summary: the example documents load, the
  current gameweek is 2, the entry is in the standings with \<open>null\<close> under the key
  \<open>2\<close>, and the call returns the exception.
\<close>

theorem C2_null_gameweek_record_raises:
  "load_data example_player_data example_league_null_record
     = Inr (example_analyzer example_league_null_record)
   \<and> current_gw (example_analyzer example_league_null_record) = 2
   \<and> example_manager_null_record \<in> set (get_mini_league_standings (example_analyzer example_league_null_record))
   \<and> gameweek_data example_manager_null_record ''2'' = Some GwNull
   \<and> get_manager_details (example_analyzer example_league_null_record) example_manager_null_record
       = Inl AttributeError"
  by (simp add: load_example example_analyzer_def example_league_null_record_def
      example_manager_null_record_def get_mini_league_standings_def
      get_manager_details_def lookup_gw_data_def str_int_2)

text \<open>
  C3. The self-team analysis never raises a division error. When the self entry is
  found, the league gameweek average is computed and the entry's gameweek record is
  present, the analysis is produced and its captaincy success rate is the actual
  captain points divided by twice the best raw score of the starting lineup (slot
  position at most 11), times 100, when that denominator is positive; the rate is 0
  when the denominator is 0 or negative (no picks, no starters, or a best starter who
  scored 0 or less). With captain points 10 and a best raw score of 8 the rate is 62.5.
\<close>

theorem C3_captaincy_success_rate:
  "get_my_team_analysis st \<noteq> Inl ZeroDivisionError
   \<and> (py_next_default (\<lambda>m. entry_name m = my_team_name) (results (a_league_data st)) = Some my_team
      \<and> calculate_gw_average (a_league_data st) (current_gw st) = Inr gw_avg
      \<and> lookup_gw_data my_team (current_gw st) = GwObj gw \<longrightarrow>
      (\<exists>a. get_my_team_analysis st = Inr (Some a)
         \<and> captain_success_rate a =
             (if 0 < 2 * best_starting_raw_score st (picks gw)
              then of_int (an_captain_points a)
                     / of_int (2 * best_starting_raw_score st (picks gw)) * 100
              else 0)
         \<and> (an_captain_points a = 10 \<and> best_starting_raw_score st (picks gw) = 8 \<longrightarrow>
              captain_success_rate a = 125 / 2)))"
proof (intro conjI impI)
  show "get_my_team_analysis st \<noteq> Inl ZeroDivisionError"
    using get_my_team_analysis_error [of st ZeroDivisionError] by auto
next
  assume h: "py_next_default (\<lambda>m. entry_name m = my_team_name) (results (a_league_data st)) = Some my_team
      \<and> calculate_gw_average (a_league_data st) (current_gw st) = Inr gw_avg
      \<and> lookup_gw_data my_team (current_gw st) = GwObj gw"
  from h get_my_team_analysis_result [of st my_team gw_avg gw] obtain a where
    a: "get_my_team_analysis st = Inr (Some a)"
    and cp: "an_captain_points a = analysis_captain_points st (picks gw)"
    and r: "captain_success_rate a =
         (if 0 < best_starting_raw_score st (picks gw) * 2
          then of_int (analysis_captain_points st (picks gw))
                 / of_int (best_starting_raw_score st (picks gw) * 2) * 100
          else 0)"
    by blast
  have r': "captain_success_rate a =
             (if 0 < 2 * best_starting_raw_score st (picks gw)
              then of_int (an_captain_points a)
                     / of_int (2 * best_starting_raw_score st (picks gw)) * 100
              else 0)"
    using r cp by (simp add: mult.commute)
  have "captain_success_rate a = 125 / 2"
    if "an_captain_points a = 10 \<and> best_starting_raw_score st (picks gw) = 8"
    using r' that by simp
  with a r' show "\<exists>a. get_my_team_analysis st = Inr (Some a)
         \<and> captain_success_rate a =
             (if 0 < 2 * best_starting_raw_score st (picks gw)
              then of_int (an_captain_points a)
                     / of_int (2 * best_starting_raw_score st (picks gw)) * 100
              else 0)
         \<and> (an_captain_points a = 10 \<and> best_starting_raw_score st (picks gw) = 8 \<longrightarrow>
              captain_success_rate a = 125 / 2)"
    by blast
qed

theorem C3_captaincy_success_rate_witness:
  "\<exists>a. get_my_team_analysis (example_analyzer (example_league picks_62)) = Inr (Some a)
       \<and> captain_success_rate a = 125 / 2"
proof -
  from C3_captaincy_success_rate [of "example_analyzer (example_league picks_62)"
      "example_manager ''404error.log'' 80 picks_62" 50 "example_gw_data picks_62"]
    example_me [of picks_62] example_avg [of picks_62] example_gw [of picks_62]
  obtain a where a: "get_my_team_analysis (example_analyzer (example_league picks_62)) = Inr (Some a)"
    and r: "captain_success_rate a =
             (if 0 < 2 * best_starting_raw_score (example_analyzer (example_league picks_62))
                           (picks (example_gw_data picks_62))
              then of_int (an_captain_points a)
                     / of_int (2 * best_starting_raw_score (example_analyzer (example_league picks_62))
                                     (picks (example_gw_data picks_62))) * 100
              else 0)"
    by blast
  from get_my_team_analysis_result [OF example_me example_avg example_gw, of picks_62] a
  have "an_captain_points a = 10"
    by (auto simp: example_gw_data_def example_captain_62)
  with r have "captain_success_rate a = 125 / 2"
    by (simp add: example_gw_data_def example_best_62)
  with a show ?thesis by blast
qed

text \<open>
  A lone starter with \<open>- 1\<close> points as captain: the denominator is \<open>- 2\<close>, not 0,
  the quotient of captain points and denominator times 100 would be 100, and the
  analysis reports 0.
\<close>

theorem C3_counterexample:
  "get_my_team_analysis (example_analyzer (example_league picks_negative)) =
     Inr (Some \<lparr> an_my_team_name = ''404error.log'', my_points = 80, leader_points = 120,
                 avg_points_total = 100, an_position = 3, num_teams = 3, my_gw_points = 50,
                 league_gw_average = 50, an_captain_points = - 2,
                 best_possible_captain_points = - 2, captain_success_rate = 0 \<rparr>)
   \<and> 2 * best_starting_raw_score (example_analyzer (example_league picks_negative)) picks_negative = - 2
   \<and> (of_int (- 2) / of_int (- 2) * 100 :: rat) = 100"
  by code_simp

text \<open>
  C4. The fixture analysis never raises. For every fixture of the next gameweek whose
  home and away teams are both in the team lookup, the output contains the entry with
  the two team names, with home strength = home \<open>strength_attack_home\<close> divided by
  away \<open>strength_defence_away\<close>, and away strength = away \<open>strength_attack_away\<close>
  divided by home \<open>strength_defence_home\<close>, each of them exactly 0 when its
  denominator is 0.
\<close>

theorem C4_fixture_strength:
  "\<exists>pages. analyze_fixtures st = Inr pages
     \<and> (\<forall>fx home away.
           fx \<in> set (fixtures_next_gw (a_player_data st))
           \<and> teams_by_id st (team_h fx) = Some home \<and> teams_by_id st (team_a fx) = Some away \<longrightarrow>
           \<lparr> home_team = name home, away_team = name away,
             home_strength =
               (if strength_defence_away away = 0 then 0
                else of_int (strength_attack_home home) / of_int (strength_defence_away away)),
             away_strength =
               (if strength_defence_home home = 0 then 0
                else of_int (strength_attack_away away) / of_int (strength_defence_home home)) \<rparr>
           \<in> set (concat pages))"
proof -
  from analyze_fixtures_eq [of st] obtain pages where
    p: "analyze_fixtures st = Inr pages"
    and c: "concat pages =
         map (\<lambda>fx. fixture_entry (the (teams_by_id st (team_h fx)))
                                 (the (teams_by_id st (team_a fx))))
           (filter (both_teams_found st) (fixtures_next_gw (a_player_data st)))"
    by blast
  have "fixture_entry home away \<in> set (concat pages)"
    if "fx \<in> set (fixtures_next_gw (a_player_data st))"
      "teams_by_id st (team_h fx) = Some home" "teams_by_id st (team_a fx) = Some away"
    for fx home away
  proof -
    from that have "fx \<in> set (filter (both_teams_found st) (fixtures_next_gw (a_player_data st)))"
      by (simp add: both_teams_found_def)
    then have "fixture_entry (the (teams_by_id st (team_h fx))) (the (teams_by_id st (team_a fx)))
               \<in> set (concat pages)"
      unfolding c set_map by (rule imageI)
    with that show ?thesis by simp
  qed
  with p show ?thesis
    unfolding fixture_entry_def by blast
qed

theorem C4_fixture_strength_witness:
  "\<exists>pages. analyze_fixtures (example_analyzer (example_league [])) = Inr pages
     \<and> \<lparr> home_team = ''Reds'', away_team = ''Blues'', home_strength = 3 / 2, away_strength = 0 \<rparr>
         \<in> set (concat pages)"
proof -
  let ?reds = "\<lparr> team_id = 1, name = ''Reds'', strength_overall_home = 1200, strength_overall_away = 1100,
             strength_attack_home = 1200, strength_attack_away = 1100,
             strength_defence_home = 0, strength_defence_away = 1000 \<rparr>"
  let ?blues = "\<lparr> team_id = 2, name = ''Blues'', strength_overall_home = 1100, strength_overall_away = 1000,
             strength_attack_home = 1000, strength_attack_away = 900,
             strength_defence_home = 1250, strength_defence_away = 800 \<rparr>"
  have fx: "\<lparr> team_h = 1, team_a = 2 \<rparr>
            \<in> set (fixtures_next_gw (a_player_data (example_analyzer (example_league []))))"
    by (simp add: example_analyzer_def example_player_data_def)
  have h: "teams_by_id (example_analyzer (example_league [])) (team_h \<lparr> team_h = 1, team_a = 2 \<rparr>) = Some ?reds"
    by (simp add: example_analyzer_def example_player_data_def dict_of_def)
  have a: "teams_by_id (example_analyzer (example_league [])) (team_a \<lparr> team_h = 1, team_a = 2 \<rparr>) = Some ?blues"
    by (simp add: example_analyzer_def example_player_data_def dict_of_def)
  from C4_fixture_strength [of "example_analyzer (example_league [])"] obtain pages where
    p: "analyze_fixtures (example_analyzer (example_league [])) = Inr pages"
    and e: "\<And>fx home away. fx \<in> set (fixtures_next_gw (a_player_data (example_analyzer (example_league []))))
           \<Longrightarrow> teams_by_id (example_analyzer (example_league [])) (team_h fx) = Some home
           \<Longrightarrow> teams_by_id (example_analyzer (example_league [])) (team_a fx) = Some away \<Longrightarrow>
           \<lparr> home_team = name home, away_team = name away,
             home_strength =
               (if strength_defence_away away = 0 then 0
                else of_int (strength_attack_home home) / of_int (strength_defence_away away)),
             away_strength =
               (if strength_defence_home home = 0 then 0
                else of_int (strength_attack_away away) / of_int (strength_defence_home home)) \<rparr>
           \<in> set (concat pages)"
    by blast
  from e [OF fx h a] p show ?thesis
    by simp
qed

text \<open>
  C5. The fixture analysis never raises, and its pages hold, in order, exactly one
  entry for each fixture of the next gameweek whose home and away team ids are both in
  the team lookup, labelled with the two team names. A fixture with a home or away id
  that the lookup does not know contributes no entry: it is left out, not given a
  placeholder label.
\<close>

theorem C5_fixtures_with_known_teams:
  "\<exists>pages. analyze_fixtures st = Inr pages
     \<and> map (\<lambda>e. (home_team e, away_team e)) (concat pages) =
         map (\<lambda>fx. (name (the (teams_by_id st (team_h fx))), name (the (teams_by_id st (team_a fx)))))
           (filter (\<lambda>fx. teams_by_id st (team_h fx) \<noteq> None \<and> teams_by_id st (team_a fx) \<noteq> None)
              (fixtures_next_gw (a_player_data st)))"
proof -
  from analyze_fixtures_eq [of st] obtain pages where
    p: "analyze_fixtures st = Inr pages"
    and c: "concat pages =
         map (\<lambda>fx. fixture_entry (the (teams_by_id st (team_h fx)))
                                 (the (teams_by_id st (team_a fx))))
           (filter (both_teams_found st) (fixtures_next_gw (a_player_data st)))"
    by blast
  have "both_teams_found st = (\<lambda>fx. teams_by_id st (team_h fx) \<noteq> None \<and> teams_by_id st (team_a fx) \<noteq> None)"
    by (simp add: both_teams_found_def fun_eq_iff)
  with p c show ?thesis
    by (simp add: fixture_entry_def comp_def)
qed

theorem C5_fixtures_with_known_teams_witness:
  "\<exists>pages. analyze_fixtures (example_analyzer (example_league [])) = Inr pages
     \<and> map (\<lambda>e. (home_team e, away_team e)) (concat pages) = [(''Reds'', ''Blues'')]"
  using C5_fixtures_with_known_teams [of "example_analyzer (example_league [])"]
  by (simp add: example_analyzer_def example_player_data_def dict_of_def)

text \<open>
  On the example documents the second fixture names the unknown team 99: the output
  has the first fixture only.
\<close>

theorem C5_counterexample:
  "fixtures_next_gw (a_player_data (example_analyzer (example_league [])))
     = [\<lparr> team_h = 1, team_a = 2 \<rparr>, \<lparr> team_h = 2, team_a = 99 \<rparr>]
   \<and> teams_by_id (example_analyzer (example_league [])) 99 = None
   \<and> analyze_fixtures (example_analyzer (example_league []))
     = Inr [[\<lparr> home_team = ''Reds'', away_team = ''Blues'', home_strength = 3 / 2, away_strength = 0 \<rparr>]]"
  by (simp add: example_analyzer_def example_player_data_def dict_of_def analyze_fixtures_def
      analyze_fixture_def py_truediv_def)

text \<open>
  C6. When the self-team analysis produces a result, its league position is one more
  than the number of entries that precede the first entry with the self name in the
  stable descending sort of the standings by total points. When exactly one entry has
  the self name, this is 1 + the number of entries with strictly more total points
  + the number of entries with the same total points that come before it in the
  standings. For total points 100, 80, 120 of entries A, B, C with B the self entry,
  the position is 3.
\<close>

theorem C6_league_position:
  assumes me: "py_next_default (\<lambda>m. entry_name m = my_team_name) (results (a_league_data st)) = Some my_team"
    and avg: "calculate_gw_average (a_league_data st) (current_gw st) = Inr gw_avg"
    and gw: "lookup_gw_data my_team (current_gw st) = GwObj gw"
  shows "\<exists>a. get_my_team_analysis st = Inr (Some a)
     \<and> an_position a =
         Suc (length (takeWhile (\<lambda>m. entry_name m \<noteq> my_team_name)
                        (py_sorted_reverse total (results (a_league_data st)))))
     \<and> (filter (\<lambda>m. entry_name m = my_team_name) (results (a_league_data st)) = [my_team] \<longrightarrow>
          an_position a =
            1 + length (filter (\<lambda>m. total my_team < total m) (results (a_league_data st)))
              + length (takeWhile (\<lambda>m. entry_name m \<noteq> my_team_name)
                          (filter (\<lambda>m. total m = total my_team) (results (a_league_data st)))))
     \<and> (\<forall>A C. map (\<lambda>m. (entry_name m, total m)) (results (a_league_data st))
                  = [(A, 100), (my_team_name, 80), (C, 120)]
               \<and> A \<noteq> my_team_name \<and> C \<noteq> my_team_name \<longrightarrow>
          an_position a = 3)"
proof -
  let ?xs = "results (a_league_data st)"
  let ?P = "\<lambda>m. entry_name m = my_team_name"
  from get_my_team_analysis_result [OF me avg gw] obtain a where
    a: "get_my_team_analysis st = Inr (Some a)"
    and pos: "an_position a = Suc (length (takeWhile (\<lambda>m. \<not> ?P m) (py_sorted_reverse total ?xs)))"
    by blast
  have rank: "an_position a =
            1 + length (filter (\<lambda>m. total my_team < total m) ?xs)
              + length (takeWhile (\<lambda>m. \<not> ?P m) (filter (\<lambda>m. total m = total my_team) ?xs))"
    if u: "filter ?P ?xs = [my_team]"
    using pos rank_in_stable_descending [OF u, of total] by simp
  have ex: "an_position a = 3"
    if m: "map (\<lambda>m. (entry_name m, total m)) ?xs = [(A, 100), (my_team_name, 80), (C, 120)]"
      and A: "A \<noteq> my_team_name" and C: "C \<noteq> my_team_name"
    for A C
  proof -
    from m obtain m1 m2 m3 where xs: "?xs = [m1, m2, m3]"
      and f: "entry_name m1 = A" "total m1 = 100" "entry_name m2 = my_team_name" "total m2 = 80"
        "entry_name m3 = C" "total m3 = 120"
      by (auto simp: map_eq_Cons_conv)
    from me xs f A have my: "my_team = m2"
      by simp
    have "filter ?P ?xs = [my_team]"
      using xs f A C my by simp
    from rank [OF this] show ?thesis
      using xs f A C my by simp
  qed
  show ?thesis
  proof (intro exI [of _ a] conjI allI impI)
    show "get_my_team_analysis st = Inr (Some a)"
      by (rule a)
    show "an_position a = Suc (length (takeWhile (\<lambda>m. entry_name m \<noteq> my_team_name)
                                        (py_sorted_reverse total ?xs)))"
      by (rule pos)
  next
    assume "filter ?P ?xs = [my_team]"
    then show "an_position a =
            1 + length (filter (\<lambda>m. total my_team < total m) ?xs)
              + length (takeWhile (\<lambda>m. entry_name m \<noteq> my_team_name)
                          (filter (\<lambda>m. total m = total my_team) ?xs))"
      by (rule rank)
  next
    fix A C
    assume "map (\<lambda>m. (entry_name m, total m)) ?xs = [(A, 100), (my_team_name, 80), (C, 120)]
            \<and> A \<noteq> my_team_name \<and> C \<noteq> my_team_name"
    then show "an_position a = 3"
      using ex [of A C] by simp
  qed
qed

theorem C6_league_position_witness:
  "\<exists>a. get_my_team_analysis (example_analyzer (example_league picks_62)) = Inr (Some a)
       \<and> an_position a = 3"
proof -
  have m: "map (\<lambda>m. (entry_name m, total m))
             (results (a_league_data (example_analyzer (example_league picks_62))))
           = [(''A'', 100), (my_team_name, 80), (''C'', 120)]"
    by (simp add: example_analyzer_def example_league_def example_manager_def my_team_name_def)
  have n: "''A'' \<noteq> my_team_name" "''C'' \<noteq> my_team_name"
    by (simp_all add: my_team_name_def)
  from C6_league_position [OF example_me example_avg example_gw, of picks_62]
  obtain a where a: "get_my_team_analysis (example_analyzer (example_league picks_62)) = Inr (Some a)"
    and ex: "\<forall>A C. map (\<lambda>m. (entry_name m, total m))
                      (results (a_league_data (example_analyzer (example_league picks_62))))
                  = [(A, 100), (my_team_name, 80), (C, 120)]
               \<and> A \<noteq> my_team_name \<and> C \<noteq> my_team_name \<longrightarrow>
          an_position a = 3"
    by blast
  have "an_position a = 3"
    by (rule ex [rule_format, of "''A''" "''C''"]) (intro conjI m n)
  with a show ?thesis
    by blast
qed

text \<open>
  C7. For a pick list whose slot positions are distinct values between 1 and 15, the
  formation string of the manager summary is \<open>D-M-F\<close> where \<open>D\<close>, \<open>M\<close> and
  \<open>F\<close> are the numbers of picks with slot position at most 11 whose player has
  position code 2, 3 and 4; picks in slots above 11 are not counted, and
  \<open>D + M + F \<le> 11\<close>.
\<close>

theorem C7_formation:
  assumes gw: "lookup_gw_data m (current_gw st) = GwObj gw"
    and dist: "distinct (map position (picks gw))"
    and range: "\<forall>p\<in>set (picks gw). 1 \<le> position p \<and> position p \<le> 15"
  shows "\<exists>d defs mids fwds.
           get_manager_details st m = Inr d
         \<and> defs = length (filter (\<lambda>p. position p \<le> 11
                     \<and> dict_get (player_id_to_position st) (Some (element p)) 0 = 2) (picks gw))
         \<and> mids = length (filter (\<lambda>p. position p \<le> 11
                     \<and> dict_get (player_id_to_position st) (Some (element p)) 0 = 3) (picks gw))
         \<and> fwds = length (filter (\<lambda>p. position p \<le> 11
                     \<and> dict_get (player_id_to_position st) (Some (element p)) 0 = 4) (picks gw))
         \<and> formation d = str_nat defs @ ''-'' @ str_nat mids @ ''-'' @ str_nat fwds
         \<and> defs + mids + fwds \<le> 11"
proof -
  let ?S = "filter (\<lambda>p. position p \<le> 11) (picks gw)"
  let ?c = "\<lambda>p. dict_get (player_id_to_position st) (Some (element p)) 0"
  have comb: "length (filter (\<lambda>p. position p \<le> 11 \<and> ?c p = k) (picks gw))
              = formation_count st ?S k" for k
    by (simp add: formation_count_def conj_commute)
  from gw have "\<exists>d. get_manager_details st m = Inr d
      \<and> formation d = str_nat (formation_count st ?S 2) @ ''-'' @
                       str_nat (formation_count st ?S 3) @ ''-'' @
                       str_nat (formation_count st ?S 4)"
    by (simp add: get_manager_details_def Let_def)
  then obtain d where d: "get_manager_details st m = Inr d"
    and f: "formation d = str_nat (formation_count st ?S 2) @ ''-'' @
                       str_nat (formation_count st ?S 3) @ ''-'' @
                       str_nat (formation_count st ?S 4)"
    by blast
  have "formation_count st ?S 2 + formation_count st ?S 3 + formation_count st ?S 4 \<le> length ?S"
    unfolding formation_count_def by (rule three_buckets)
  also have "length ?S \<le> 11"
    using dist range by (intro starters_at_most_11) auto
  finally have le: "formation_count st ?S 2 + formation_count st ?S 3 + formation_count st ?S 4 \<le> 11" .
  show ?thesis
    using d f le by (simp add: comb)
qed

theorem C7_formation_witness:
  "\<exists>d. get_manager_details (example_analyzer (example_league picks_62))
          (example_manager ''404error.log'' 80 picks_62) = Inr d
       \<and> formation d = ''0-1-1''"
proof -
  have gw: "lookup_gw_data (example_manager ''404error.log'' 80 picks_62)
              (current_gw (example_analyzer (example_league picks_62)))
            = GwObj (example_gw_data picks_62)"
    by (simp add: example_analyzer_def example_lookup_gw)
  have dist: "distinct (map position (picks (example_gw_data picks_62)))"
    by (simp add: example_gw_data_def picks_62_def)
  have range: "\<forall>p\<in>set (picks (example_gw_data picks_62)). 1 \<le> position p \<and> position p \<le> 15"
    by (simp add: example_gw_data_def picks_62_def)
  from C7_formation [OF gw dist range]
  show ?thesis
    by (simp add: example_gw_data_def picks_62_def example_analyzer_def example_player_data_def
        dict_of_def dict_get_def str_nat.simps)
qed

text \<open>
  C8. When no standings entry of the league document has the configured self-team
  name, the self-team analysis returns the not-found result without raising, and the
  page formatter draws the title followed by the two fallback lines, without raising.
\<close>

theorem C8_self_team_not_found:
  assumes "\<forall>m\<in>set (results (a_league_data st)). entry_name m \<noteq> my_team_name"
  shows "get_my_team_analysis st = Inr None
       \<and> create_my_team_page fmt_1f fmt_plus_1f d st =
           Inr [DrawText 10 5 ''My Team Analysis'' 24,
                DrawLine 10 35 (width d - 10) 35,
                DrawText 10 45 ''404error.log not found'' 16,
                DrawText 10 70 ''in this league.'' 16]"
proof -
  from assms have "py_next_default (\<lambda>m. entry_name m = my_team_name) (results (a_league_data st)) = None"
    by (simp add: py_next_default_None)
  then have nf: "get_my_team_analysis st = Inr None"
    by (rule get_my_team_analysis_not_found)
  then show ?thesis
    by (simp add: create_my_team_page_def draw_title_def create_page_def)
qed

theorem C8_self_team_not_found_witness:
  "get_my_team_analysis (example_analyzer example_league_without_self) = Inr None
   \<and> create_my_team_page (\<lambda>q. ''?'') (\<lambda>q. ''?'') \<lparr> width = 360, height = 240 \<rparr>
        (example_analyzer example_league_without_self) =
           Inr [DrawText 10 5 ''My Team Analysis'' 24,
                DrawLine 10 35 350 35,
                DrawText 10 45 ''404error.log not found'' 16,
                DrawText 10 70 ''in this league.'' 16]"
proof -
  have h: "\<forall>m\<in>set (results (a_league_data (example_analyzer example_league_without_self))).
             entry_name m \<noteq> my_team_name"
    by (simp add: example_analyzer_def example_league_without_self_def example_manager_def
        my_team_name_def)
  from C8_self_team_not_found [OF h, of "\<lambda>q. ''?''" "\<lambda>q. ''?''" "\<lparr> width = 360, height = 240 \<rparr>"]
  show ?thesis by simp
qed

text \<open>
  C9. Loading the documents fails with \<open>ValueError\<close> exactly when no event is
  flagged as current. When some event is flagged, loading succeeds and the current
  gameweek is the id of the first flagged event. The collector's
  \<open>get_current_gameweek\<close> returns that same id, and \<open>None\<close> exactly when no event
  is flagged.
\<close>

theorem C9_current_gameweek:
  "((load_data pd ld = Inl ValueError) = (\<forall>ev\<in>set (events pd). \<not> is_current ev))
   \<and> (\<forall>ev rest. filter is_current (events pd) = ev # rest \<longrightarrow>
         (\<exists>st. load_data pd ld = Inr st \<and> current_gw st = event_id ev \<and> current_gw_event st = ev)
         \<and> get_current_gameweek pd = Some (event_id ev))
   \<and> ((get_current_gameweek pd = None) = (\<forall>ev\<in>set (events pd). \<not> is_current ev))"
proof (intro conjI allI impI)
  show "(load_data pd ld = Inl ValueError) = (\<forall>ev\<in>set (events pd). \<not> is_current ev)"
    by (auto simp: load_data_def py_next_default_None [symmetric] split: option.splits)
next
  fix ev rest
  assume f: "filter is_current (events pd) = ev # rest"
  then show "\<exists>st. load_data pd ld = Inr st \<and> current_gw st = event_id ev \<and> current_gw_event st = ev"
    by (simp add: load_data_def py_next_default_filter)
  from f show "get_current_gameweek pd = Some (event_id ev)"
    by (simp add: get_current_gameweek_def get_current_gameweek_events_filter)
next
  show "(get_current_gameweek pd = None) = (\<forall>ev\<in>set (events pd). \<not> is_current ev)"
    by (simp add: get_current_gameweek_def get_current_gameweek_events_None)
qed

theorem C9_current_gameweek_witness:
  "(\<exists>st. load_data example_player_data (example_league []) = Inr st \<and> current_gw st = 2)
   \<and> get_current_gameweek example_player_data = Some 2
   \<and> load_data (example_player_data \<lparr> events := [\<lparr> event_id = 1, is_current = False \<rparr>] \<rparr>)
       (example_league [])
       = Inl ValueError
   \<and> get_current_gameweek (example_player_data \<lparr> events := [\<lparr> event_id = 1, is_current = False \<rparr>] \<rparr>)
       = None"
proof -
  have f: "filter is_current (events example_player_data) = \<lparr> event_id = 2, is_current = True \<rparr> # []"
    by (simp add: example_player_data_def)
  have n: "\<forall>ev\<in>set (events (example_player_data \<lparr> events := [\<lparr> event_id = 1, is_current = False \<rparr>] \<rparr>)).
             \<not> is_current ev"
    by simp
  from C9_current_gameweek [of example_player_data "example_league []"] f
    C9_current_gameweek [of "example_player_data \<lparr> events := [\<lparr> event_id = 1, is_current = False \<rparr>] \<rparr>"
      "example_league []"] n
  show ?thesis
    by fastforce
qed

text \<open>
  C10. The captaincy success rate is not bounded by 100. When the captain pick has
  multiplier 3, is in the starting lineup, and its player has positive points that no
  starter exceeds, the analysis reports captain points of three times and a best
  possible score of twice those points, and a success rate of exactly 150: the
  denominator is twice the best starter's raw score whatever the multiplier is.
\<close>

theorem C10_success_rate_above_100:
  assumes me: "py_next_default (\<lambda>m. entry_name m = my_team_name) (results (a_league_data st)) = Some my_team"
    and avg: "calculate_gw_average (a_league_data st) (current_gw st) = Inr gw_avg"
    and gw: "lookup_gw_data my_team (current_gw st) = GwObj gw"
    and cap: "py_next_default is_captain (picks gw) = Some c"
    and triple: "multiplier c = 3"
    and starter: "position c \<le> 11"
    and positive: "0 < dict_get (player_id_to_points st) (Some (element c)) 0"
    and best: "\<forall>p\<in>set (picks gw). position p \<le> 11 \<longrightarrow>
                 dict_get (player_id_to_points st) (Some (element p)) 0
                   \<le> dict_get (player_id_to_points st) (Some (element c)) 0"
  shows "\<exists>a. get_my_team_analysis st = Inr (Some a)
     \<and> an_captain_points a = 3 * dict_get (player_id_to_points st) (Some (element c)) 0
     \<and> best_possible_captain_points a = 2 * dict_get (player_id_to_points st) (Some (element c)) 0
     \<and> captain_success_rate a = 150"
proof -
  let ?pts = "\<lambda>p. dict_get (player_id_to_points st) (Some (element p)) 0"
  let ?S = "filter (\<lambda>p. position p \<le> 11) (picks gw)"
  from py_next_default_Some [OF cap] starter have cS: "c \<in> set ?S"
    by simp
  have ne: "?S \<noteq> []"
  proof
    assume "?S = []"
    with cS show False by (simp only: list.set empty_iff)
  qed
  have "Max (?pts ` set ?S) = ?pts c"
    using cS best by (intro Max_eqI) auto
  with ne have b: "best_starting_raw_score st (picks gw) = ?pts c"
    by (simp add: best_starting_raw_score_def)
  have cp: "analysis_captain_points st (picks gw) = 3 * ?pts c"
    using cap triple by (simp add: analysis_captain_points_def)
  from get_my_team_analysis_result [OF me avg gw] obtain a where
    a: "get_my_team_analysis st = Inr (Some a)"
    and acp: "an_captain_points a = analysis_captain_points st (picks gw)"
    and bp: "best_possible_captain_points a = best_starting_raw_score st (picks gw) * 2"
    and r: "captain_success_rate a =
         (if 0 < best_starting_raw_score st (picks gw) * 2
          then of_int (analysis_captain_points st (picks gw))
                 / of_int (best_starting_raw_score st (picks gw) * 2) * 100
          else 0)"
    by blast
  from r b cp positive have "captain_success_rate a = 150"
    by (simp add: field_simps)
  with a acp bp b cp show ?thesis
    by auto
qed

theorem C10_success_rate_above_100_witness:
  "\<exists>a. get_my_team_analysis (example_analyzer (example_league picks_150)) = Inr (Some a)
       \<and> an_captain_points a = 24 \<and> best_possible_captain_points a = 16
       \<and> captain_success_rate a = 150 \<and> 100 < captain_success_rate a"
proof -
  let ?c = "\<lparr> element = 2, position = 2, is_captain = True, multiplier = 3 \<rparr>"
  let ?st = "example_analyzer (example_league picks_150)"
  have cap: "py_next_default is_captain (picks (example_gw_data picks_150)) = Some ?c"
    by (simp add: example_gw_data_def picks_150_def)
  have triple: "multiplier ?c = 3" and starter: "position ?c \<le> 11"
    by simp_all
  have pts: "dict_get (player_id_to_points ?st) (Some 2) 0 = 8"
    by (simp add: example_points dict_get_def)
  have positive: "0 < dict_get (player_id_to_points ?st) (Some (element ?c)) 0"
    by (simp add: pts)
  have best: "\<forall>p\<in>set (picks (example_gw_data picks_150)). position p \<le> 11 \<longrightarrow>
                 dict_get (player_id_to_points ?st) (Some (element p)) 0
                   \<le> dict_get (player_id_to_points ?st) (Some (element ?c)) 0"
    by (simp add: example_gw_data_def picks_150_def example_points dict_get_def)
  from C10_success_rate_above_100 [OF example_me example_avg example_gw cap triple starter positive best]
  show ?thesis
    by (auto simp: pts)
qed

end
